theory Spec2Isabelle
  imports Complex_Main
begin

section \<open>Python built-ins used by app.py\<close>

text \<open>
  Text is held as \<open>string\<close>: the UTF-8 bytes of the Python \<open>str\<close>. The white space
  and the digits recognised below are the ASCII ones; the interpreter also strips
  non-ASCII white space and reads non-ASCII decimal digits, which this development
  leaves aside.
\<close>

definition sq :: char where
  "sq = CHR 0x27"

definition dq :: char where
  "dq = CHR 0x22"

definition backslash :: char where
  "backslash = CHR 0x5C"

definition is_space :: "char \<Rightarrow> bool" where
  "is_space c = (c \<in> set [CHR 0x09, CHR 0x0A, CHR 0x0B, CHR 0x0C, CHR 0x0D,
                             CHR 0x1C, CHR 0x1D, CHR 0x1E, CHR 0x1F, CHR 0x20])"

text \<open>\<^verbatim>\<open>s.strip()\<close>: white space removed at both ends.\<close>

definition strip :: "string \<Rightarrow> string" where
  "strip s = rev (dropWhile is_space (rev (dropWhile is_space s)))"

text \<open>\<^verbatim>\<open>s.split(',')\<close>: one more piece than there are commas; the empty text gives one
  empty piece.\<close>

fun split_comma :: "string \<Rightarrow> string list" where
  "split_comma [] = [[]]"
| "split_comma (c # cs) =
     (if c = CHR '','' then [] # split_comma cs
      else (case split_comma cs of
              [] \<Rightarrow> [[c]]
            | t # ts \<Rightarrow> (c # t) # ts))"

definition is_digit :: "char \<Rightarrow> bool" where
  "is_digit c = (c \<in> set ''0123456789'')"

definition digit_val :: "char \<Rightarrow> nat" where
  "digit_val c = of_char c - 48"

definition digit_char :: "nat \<Rightarrow> char" where
  "digit_char d = ''0123456789abcdef'' ! (d mod 16)"

text \<open>\<^verbatim>\<open>str(n)\<close> and \<^verbatim>\<open>f"{n}"\<close> for a non-negative integer.\<close>

fun str_nat :: "nat \<Rightarrow> string" where
  "str_nat n = (if n < 10 then [digit_char n] else str_nat (n div 10) @ [digit_char (n mod 10)])"

declare str_nat.simps [simp del]

text \<open>\<^verbatim>\<open>repr(s)\<close> of a text: single quotes unless the text holds a single quote and no
  double quote; the quote and the backslash escaped, control characters written as
  \<^verbatim>\<open>\t\<close>, \<^verbatim>\<open>\n\<close>, \<^verbatim>\<open>\r\<close> or \<^verbatim>\<open>\xhh\<close>.\<close>

definition repr_char :: "char \<Rightarrow> char \<Rightarrow> string" where
  "repr_char q c =
     (if c = q \<or> c = backslash then [backslash, c]
      else if c = CHR 0x09 then [backslash, CHR ''t'']
      else if c = CHR 0x0A then [backslash, CHR ''n'']
      else if c = CHR 0x0D then [backslash, CHR ''r'']
      else if (of_char c :: nat) < 32 \<or> c = CHR 0x7F
        then [backslash, CHR ''x'', digit_char (of_char c div 16), digit_char (of_char c mod 16)]
      else [c])"

definition repr_str :: "string \<Rightarrow> string" where
  "repr_str s =
     (let q = (if sq \<in> set s \<and> dq \<notin> set s then dq else sq)
      in [q] @ concat (map (repr_char q) s) @ [q])"

subsection \<open>Exceptions\<close>

text \<open>The instances of Python's \<open>Exception\<close> class: the ones app.py itself can raise,
  and \<open>Py_exception name message\<close> for any other.\<close>

datatype exn =
    ValueError string
  | KeyError string
  | AttributeError string
  | Py_exception string string

text \<open>\<^verbatim>\<open>str(e)\<close>: the message; for a KeyError the repr of the key.\<close>

fun str_exn :: "exn \<Rightarrow> string" where
  "str_exn (ValueError m) = m"
| "str_exn (KeyError k) = repr_str k"
| "str_exn (AttributeError m) = m"
| "str_exn (Py_exception name m) = m"

subsection \<open>Floating-point values and \<^verbatim>\<open>float(text)\<close>\<close>

text \<open>A float is a finite rational, an infinity or not-a-number. A finite literal is
  kept at its exact decimal value: rounding to binary64 is not part of this
  development, and nothing in app.py looks at a parsed coefficient's value.\<close>

datatype pyfloat = Finite rat | PosInf | NegInf | NaN

definition ascii_lower :: "char \<Rightarrow> char" where
  "ascii_lower c =
     (case map_of (zip ''ABCDEFGHIJKLMNOPQRSTUVWXYZ'' ''abcdefghijklmnopqrstuvwxyz'') c of
        None \<Rightarrow> c
      | Some l \<Rightarrow> l)"

text \<open>\<open>digitpart\<close>: a digit, then digits each preceded by at most one underscore.\<close>

fun digitpart :: "string \<Rightarrow> bool" where
  "digitpart [] = False"
| "digitpart [c] = is_digit c"
| "digitpart (c # d # cs) =
     (is_digit c \<and> (if d = CHR ''_'' then digitpart cs else digitpart (d # cs)))"

definition digits_val :: "string \<Rightarrow> nat" where
  "digits_val s = foldl (\<lambda>acc c. 10 * acc + digit_val c) 0 (filter is_digit s)"

definition pow10 :: "int \<Rightarrow> rat" where
  "pow10 k = (if 0 \<le> k then 10 ^ nat k else 1 / 10 ^ nat (- k))"

text \<open>The pieces of an unsigned literal: integer part, whether a point follows, the
  fraction, and the exponent text after \<open>e\<close> or \<open>E\<close> when there is one.\<close>

definition not_e :: "char \<Rightarrow> bool" where
  "not_e c = (c \<noteq> CHR ''e'' \<and> c \<noteq> CHR ''E'')"

definition not_point :: "char \<Rightarrow> bool" where
  "not_point c = (c \<noteq> CHR ''.'')"

definition split_sign :: "string \<Rightarrow> bool \<times> string" where
  "split_sign s =
     (case s of
        [] \<Rightarrow> (False, [])
      | c # cs \<Rightarrow> if c = CHR ''-'' then (True, cs)
                  else if c = CHR ''+'' then (False, cs)
                  else (False, s))"

definition number_ok :: "string \<Rightarrow> bool" where
  "number_ok m =
     (let ip = takeWhile not_point m; rest = dropWhile not_point m
      in case rest of
           [] \<Rightarrow> digitpart ip
         | p # fp \<Rightarrow> (if fp = [] then digitpart ip
                      else (ip = [] \<or> digitpart ip) \<and> digitpart fp))"

definition exponent_ok :: "string \<Rightarrow> bool" where
  "exponent_ok x = (case dropWhile not_e x of
                      [] \<Rightarrow> True
                    | e # ex \<Rightarrow> digitpart (snd (split_sign ex)))"

definition floatnumber_ok :: "string \<Rightarrow> bool" where
  "floatnumber_ok x = (number_ok (takeWhile not_e x) \<and> exponent_ok x)"

definition number_val :: "string \<Rightarrow> rat" where
  "number_val m =
     (let ip = takeWhile not_point m; fp = drop 1 (dropWhile not_point m)
      in of_nat (digits_val (ip @ fp)) * pow10 (- int (length (filter is_digit fp))))"

definition exponent_val :: "string \<Rightarrow> int" where
  "exponent_val x =
     (case dropWhile not_e x of
        [] \<Rightarrow> 0
      | e # ex \<Rightarrow> (let (neg, ds) = split_sign ex
                  in if neg then - int (digits_val ds) else int (digits_val ds)))"

definition floatnumber_val :: "string \<Rightarrow> rat" where
  "floatnumber_val x = number_val (takeWhile not_e x) * pow10 (exponent_val x)"

text \<open>\<^verbatim>\<open>float(s)\<close>: white space stripped, an optional sign, then \<open>inf\<close>, \<open>infinity\<close>,
  \<open>nan\<close> (in any case) or a decimal literal; any other text raises
  \<^verbatim>\<open>ValueError("could not convert string to float: " + repr(s))\<close>.\<close>

definition float_py :: "string \<Rightarrow> exn + pyfloat" where
  "float_py s =
     (let (neg, body) = split_sign (strip s); low = map ascii_lower body
      in if low = ''inf'' \<or> low = ''infinity'' then Inr (if neg then NegInf else PosInf)
         else if low = ''nan'' then Inr NaN
         else if floatnumber_ok body
           then Inr (Finite (if neg then - floatnumber_val body else floatnumber_val body))
         else Inl (ValueError (''could not convert string to float: '' @ repr_str s)))"

section \<open>validate_problem_input\<close>

text \<open>An entry of a Python dict as the code may find it: the key absent, the value
  \<open>None\<close>, or a value.\<close>

datatype 'a field = Missing | Null | Val 'a

datatype relation = Le | Ge | Eq

text \<open>One constraint as show_problem_input builds it: the keys \<open>'coefficients'\<close>,
  \<open>'type'\<close> and \<open>'rhs'\<close>.\<close>

record constraint =
  coefficients :: "string field"
  ctype :: relation
  rhs :: "pyfloat field"

text \<open>The dict validate_problem_input returns: \<open>'valid'\<close>, and \<open>'error'\<close> or
  \<open>'num_variables'\<close> when the key is present.\<close>

record validation_result =
  valid :: bool
  error :: "string option"
  num_variables :: "nat option"

definition invalid :: "string \<Rightarrow> validation_result" where
  "invalid reason = \<lparr>valid = False, error = Some reason, num_variables = None\<rparr>"

fun map_exn :: "('a \<Rightarrow> exn + 'b) \<Rightarrow> 'a list \<Rightarrow> exn + 'b list" where
  "map_exn f [] = Inr []"
| "map_exn f (x # xs) =
     (case f x of
        Inl e \<Rightarrow> Inl e
      | Inr y \<Rightarrow> (case map_exn f xs of Inl e \<Rightarrow> Inl e | Inr ys \<Rightarrow> Inr (y # ys)))"

text \<open>\<^verbatim>\<open>[float(x.strip()) for x in s.split(',') if x.strip()]\<close>\<close>

definition nonblank :: "string \<Rightarrow> bool" where
  "nonblank x = (strip x \<noteq> [])"

definition tokens :: "string \<Rightarrow> string list" where
  "tokens s = filter nonblank (split_comma s)"

definition parse_coeffs :: "string \<Rightarrow> exn + pyfloat list" where
  "parse_coeffs s = map_exn (\<lambda>x. float_py (strip x)) (tokens s)"

definition none_strip :: string where
  "none_strip = [sq] @ ''NoneType'' @ [sq] @ '' object has no attribute '' @ [sq] @ ''strip'' @ [sq]"

text \<open>The loop over \<open>enumerate(constraints)\<close>, with the return that follows it.\<close>

fun check_constraints :: "nat \<Rightarrow> nat \<Rightarrow> constraint list \<Rightarrow> exn + validation_result" where
  "check_constraints num_vars i [] =
     Inr \<lparr>valid = True, error = None, num_variables = Some num_vars\<rparr>"
| "check_constraints num_vars i (c # cs) =
     (case coefficients c of
        Missing \<Rightarrow> Inl (KeyError ''coefficients'')
      | Null \<Rightarrow> Inl (AttributeError none_strip)
      | Val s \<Rightarrow>
          if strip s = []
          then Inr (invalid (''Empty coefficients in constraint '' @ str_nat (i + 1)))
          else (case parse_coeffs s of
                  Inl e \<Rightarrow> Inl e
                | Inr constraint_coeffs \<Rightarrow>
                    if length constraint_coeffs \<noteq> num_vars
                    then Inr (invalid (''Constraint '' @ str_nat (i + 1) @ '' has ''
                                @ str_nat (length constraint_coeffs)
                                @ '' variables, expected '' @ str_nat num_vars))
                    else (case rhs c of
                            Missing \<Rightarrow> Inl (KeyError ''rhs'')
                          | Null \<Rightarrow> Inr (invalid (''Missing RHS value in constraint ''
                                                  @ str_nat (i + 1)))
                          | Val r \<Rightarrow> check_constraints num_vars (i + 1) cs)))"

text \<open>The body of the \<open>try\<close>.\<close>

definition validate_body :: "string \<Rightarrow> constraint list \<Rightarrow> exn + validation_result" where
  "validate_body obj_coeffs constraints =
     (case parse_coeffs obj_coeffs of
        Inl e \<Rightarrow> Inl e
      | Inr obj_list \<Rightarrow>
          if obj_list = [] then Inr (invalid ''Empty objective function'')
          else check_constraints (length obj_list) 0 constraints)"

definition validate_problem_input :: "string \<Rightarrow> constraint list \<Rightarrow> validation_result" where
  "validate_problem_input obj_coeffs constraints =
     (case validate_body obj_coeffs constraints of
        Inr r \<Rightarrow> r
      | Inl (ValueError m) \<Rightarrow> invalid (''Invalid number format: '' @ m)
      | Inl e \<Rightarrow> invalid (''Validation error: '' @ str_exn e))"

section \<open>The page effects\<close>

text \<open>Every call into the page library or into a collaborator is an effect, recorded in
  the order of the calls. \<open>St_expander\<close> and \<open>With_col\<close> open a \<open>with\<close> block and
  \<open>End_with\<close> closes it. Tables (\<open>'t\<close>) and figures (\<open>'f\<close>) are opaque.\<close>

datatype engine = SimplexSolver | GraphicalSolver | BigMSolver

datatype ('t, 'f) effect =
    St_error string
  | St_warning string
  | St_success string
  | St_info string
  | St_subheader string
  | St_markdown string
  | St_write string
  | St_dataframe 't
  | St_pyplot 'f
  | St_expander string bool
  | St_columns nat
  | With_col nat
  | End_with
  | Solver_solve engine

text \<open>A run of page code: the effects made, and the exception that ended it if one
  did.\<close>

type_synonym ('t, 'f) io = "('t, 'f) effect list \<times> exn option"

definition emit :: "('t, 'f) effect list \<Rightarrow> ('t, 'f) io" where
  "emit es = (es, None)"

definition raise :: "exn \<Rightarrow> ('t, 'f) io" where
  "raise e = ([], Some e)"

definition seq :: "('t, 'f) io \<Rightarrow> ('t, 'f) io \<Rightarrow> ('t, 'f) io" where
  "seq a b = (case snd a of
                Some e \<Rightarrow> a
              | None \<Rightarrow> (fst a @ fst b, snd b))"

text \<open>The non-ASCII characters of the messages, as their UTF-8 bytes.\<close>

definition check_mark :: string where
  "check_mark = [CHR 0xE2, CHR 0x9C, CHR 0x85]"

definition cross_mark :: string where
  "cross_mark = [CHR 0xE2, CHR 0x9D, CHR 0x8C]"

definition warning_sign :: string where
  "warning_sign = [CHR 0xE2, CHR 0x9A, CHR 0xA0, CHR 0xEF, CHR 0xB8, CHR 0x8F]"

definition bullet :: string where
  "bullet = [CHR 0xE2, CHR 0x80, CHR 0xA2]"

definition light_bulb :: string where
  "light_bulb = [CHR 0xF0, CHR 0x9F, CHR 0x92, CHR 0xA1]"

definition graduation_cap :: string where
  "graduation_cap = [CHR 0xF0, CHR 0x9F, CHR 0x8E, CHR 0x93]"

definition chart_up :: string where
  "chart_up = [CHR 0xF0, CHR 0x9F, CHR 0x93, CHR 0x88]"

definition input_numbers :: string where
  "input_numbers = [CHR 0xF0, CHR 0x9F, CHR 0x94, CHR 0xA2]"

definition direct_hit :: string where
  "direct_hit = [CHR 0xF0, CHR 0x9F, CHR 0x8E, CHR 0xAF]"

subsection \<open>Number formatting\<close>

text \<open>\<^verbatim>\<open>f"{value:.4f}"\<close>: four decimals, the exact value rounded to the nearest, a tie
  to the even neighbour.\<close>

definition round_half_even :: "rat \<Rightarrow> nat" where
  "round_half_even x =
     (let f = nat \<lfloor>x\<rfloor>; d = x - of_nat f
      in if d < 1 / 2 then f
         else if 1 / 2 < d then f + 1
         else if even f then f else f + 1)"

definition pad4 :: "nat \<Rightarrow> string" where
  "pad4 n = [digit_char (n div 1000 mod 10), digit_char (n div 100 mod 10),
             digit_char (n div 10 mod 10), digit_char (n mod 10)]"

fun fmt4 :: "pyfloat \<Rightarrow> string" where
  "fmt4 (Finite q) =
     (let n = round_half_even (\<bar>q\<bar> * 10000)
      in (if q < 0 then ''-'' else []) @ str_nat (n div 10000) @ ''.'' @ pad4 (n mod 10000))"
| "fmt4 PosInf = ''inf''"
| "fmt4 NegInf = ''-inf''"
| "fmt4 NaN = ''nan''"

text \<open>\<^verbatim>\<open>value > 0.001\<close>, the literal being the binary64 number nearest to one
  thousandth.\<close>

fun gt_0_001 :: "pyfloat \<Rightarrow> bool" where
  "gt_0_001 (Finite q) = (1152921504606847 / 1152921504606846976 < q)"
| "gt_0_001 PosInf = True"
| "gt_0_001 NegInf = False"
| "gt_0_001 NaN = False"

section \<open>display_solution\<close>

text \<open>A step of the trace and a Result, as the dicts the solvers return. A key that
  may be absent is an \<open>option\<close>; reading it when absent raises KeyError. \<open>'variables'\<close>
  keeps the order of the dict.\<close>

record ('t, 'f) step =
  title :: string
  explanation :: string
  table :: "'t option"
  figure :: "'f option"

record ('t, 'f) result =
  status :: string
  message :: "string option"
  steps :: "('t, 'f) step list option"
  variables :: "(string \<times> pyfloat) list option"
  objective_value :: "pyfloat option"

definition show_step :: "nat \<Rightarrow> ('t, 'f) step \<Rightarrow> ('t, 'f) effect list" where
  "show_step i step =
     [St_expander (''Step '' @ str_nat i @ '': '' @ title step) (i = 1),
      St_markdown (explanation step)]
     @ (case table step of None \<Rightarrow> [] | Some t \<Rightarrow> [St_dataframe t])
     @ (case figure step of None \<Rightarrow> [] | Some f \<Rightarrow> [St_pyplot f])
     @ [End_with]"

fun show_steps :: "nat \<Rightarrow> ('t, 'f) step list \<Rightarrow> ('t, 'f) effect list" where
  "show_steps i [] = []"
| "show_steps i (step # rest) = show_step i step @ show_steps (i + 1) rest"

text \<open>\<^verbatim>\<open>if 'steps' in result: ...\<close>\<close>

definition step_by_step :: "('t, 'f) result \<Rightarrow> ('t, 'f) effect list" where
  "step_by_step r =
     (case steps r of
        None \<Rightarrow> []
      | Some ss \<Rightarrow> St_subheader ''Step-by-Step Solution'' # show_steps 1 ss)"

definition write_variable :: "string \<times> pyfloat \<Rightarrow> ('t, 'f) effect" where
  "write_variable p = St_write (fst p @ '' = '' @ fmt4 (snd p))"

definition method_note :: "string \<Rightarrow> string" where
  "method_note method =
     (if method = ''Graphical Method'' then ''Solution found by evaluating corner points''
      else if method = ''Simplex Method'' then ''Solution found through tableau iterations''
      else ''Solution found using artificial variables'')"

text \<open>The branch \<^verbatim>\<open>result['status'] == 'optimal'\<close>.\<close>

definition show_optimal :: "string \<Rightarrow> ('t, 'f) result \<Rightarrow> ('t, 'f) io" where
  "show_optimal method r =
     seq (emit [St_success (check_mark @ '' Optimal solution found!''), St_columns 3,
                With_col 1, St_markdown ''**Decision Variables:**''])
    (case variables r of
       None \<Rightarrow> seq (emit [End_with]) (raise (KeyError ''variables''))
     | Some vars \<Rightarrow>
         seq (emit (map write_variable vars
                    @ [End_with, With_col 2, St_markdown ''**Objective Value:**'']))
        (case objective_value r of
           None \<Rightarrow> seq (emit [End_with]) (raise (KeyError ''objective_value''))
         | Some z \<Rightarrow>
             emit [St_write (''Z = '' @ fmt4 z), End_with,
                   With_col 3, St_markdown ''**Solution Type:**'',
                   St_write ''Basic Feasible Solution'',
                   St_write ''Corner Point of Feasible Region'', End_with,
                   St_subheader (light_bulb @ '' Solution Interpretation''),
                   St_columns 2,
                   With_col 1,
                   St_info (''**Active Variables:** ''
                            @ str_nat (length (filter (\<lambda>p. gt_0_001 (snd p)) vars))
                            @ '' out of '' @ str_nat (length vars)),
                   St_markdown ''Variables with positive values in the optimal solution'',
                   End_with,
                   With_col 2,
                   St_info (''**Method Used:** '' @ method),
                   St_markdown (method_note method),
                   End_with]))"

text \<open>What the branches for \<open>'unbounded'\<close> and \<open>'infeasible'\<close> put on the page.\<close>

definition unbounded_notice :: "('t, 'f) effect list" where
  "unbounded_notice =
     [St_warning (warning_sign @ '' The problem is unbounded.''),
      St_markdown ''**Meaning:** The objective function can be increased indefinitely.'',
      St_markdown ''**Cause:** The feasible region extends infinitely in the direction of optimization.'',
      St_markdown ''**Action:** Check if constraints are missing or incorrectly formulated.'']"

definition infeasible_notice :: "('t, 'f) effect list" where
  "infeasible_notice =
     [St_error (cross_mark @ '' The problem is infeasible.''),
      St_markdown ''**Meaning:** There is no solution that satisfies all constraints simultaneously.'',
      St_markdown ''**Cause:** Constraints are contradictory or too restrictive.'',
      St_markdown ''**Action:** Review constraints for conflicts or relax some requirements.'']"

text \<open>The chain \<^verbatim>\<open>if ... elif ... else\<close> under "Final Solution".\<close>

definition final_solution :: "string \<Rightarrow> ('t, 'f) result \<Rightarrow> ('t, 'f) io" where
  "final_solution method r =
     (if status r = ''optimal'' then show_optimal method r
      else if status r = ''unbounded'' then emit unbounded_notice
      else if status r = ''infeasible'' then emit infeasible_notice
      else emit [St_info (''Status: '' @ status r)])"

definition insights :: "string \<Rightarrow> string list" where
  "insights method =
     [light_bulb @ '' In optimal solutions, at least n constraints are tight (where n = number of variables)'']
     @ (if method = ''Graphical Method''
        then [chart_up @ '' Graphical method shows that optimal solutions occur at corner points'']
        else [])
     @ (if method = ''Simplex Method''
        then [input_numbers @ '' Simplex method efficiently moves from one corner point to a better one'']
        else [])
     @ (if method = ''Big M Method''
        then [direct_hit @ '' Big M method handles complex constraint types by using artificial variables'']
        else [])"

text \<open>\<^verbatim>\<open>if result['status'] == 'optimal':\<close> after the chain.\<close>

definition learning_insights :: "string \<Rightarrow> ('t, 'f) result \<Rightarrow> ('t, 'f) io" where
  "learning_insights method r =
     (if status r = ''optimal''
      then emit (St_subheader (graduation_cap @ '' Learning Insights'')
                 # map St_markdown (insights method))
      else emit [])"

definition display_solution :: "string \<Rightarrow> ('t, 'f) result \<Rightarrow> ('t, 'f) io" where
  "display_solution method r =
     (if status r = ''error'' then
        (case message r of
           None \<Rightarrow> raise (KeyError ''message'')
         | Some m \<Rightarrow> emit [St_error m])
      else seq (emit (step_by_step r @ [St_subheader ''Final Solution'']))
          (seq (final_solution method r) (learning_insights method r)))"

section \<open>solve_problem\<close>

text \<open>The parsed problem is the dict InputParser.parse_problem returns; app.py reads
  its keys \<open>'error'\<close> (here \<open>parse_error\<close>, \<open>None\<close> for Python's \<open>None\<close>) and
  \<open>'objective'\<close>.\<close>

record parsed_problem =
  parse_error :: "string option"
  objective :: "pyfloat list"

text \<open>InputParser, ProblemFormatter and the three solvers are modules of the repository
  that app.py imports; they are parameters here. Each may return or raise.\<close>

record ('t, 'f) collaborators =
  parse_problem :: "string \<Rightarrow> string \<Rightarrow> constraint list \<Rightarrow> bool \<Rightarrow> exn + parsed_problem"
  format_problem :: "parsed_problem \<Rightarrow> exn + string"
  solve :: "engine \<Rightarrow> parsed_problem \<Rightarrow> exn + ('t, 'f) result"

text \<open>\<^verbatim>\<open>if parsed_problem['error']:\<close> is the truth value of the entry: \<open>None\<close> and the
  empty text are false.\<close>

definition truthy :: "string option \<Rightarrow> bool" where
  "truthy x = (case x of None \<Rightarrow> False | Some s \<Rightarrow> s \<noteq> [])"

text \<open>The chain on \<open>method\<close>: the solver whose \<open>solve\<close> is called, and \<open>None\<close> where the
  Graphical branch returns after its error message.\<close>

definition choose_solver :: "string \<Rightarrow> parsed_problem \<Rightarrow> engine option" where
  "choose_solver method parsed =
     (if method = ''Simplex Method'' then Some SimplexSolver
      else if method = ''Graphical Method'' then
        (if length (objective parsed) > 2 then None else Some GraphicalSolver)
      else Some BigMSolver)"

definition run_solver ::
  "('t, 'f) collaborators \<Rightarrow> string \<Rightarrow> parsed_problem \<Rightarrow> ('t, 'f) io" where
  "run_solver env method parsed =
     (case choose_solver method parsed of
        None \<Rightarrow> emit [St_error ''Graphical method only supports problems with 2 variables.'']
      | Some solver \<Rightarrow>
          seq (emit [Solver_solve solver])
            (case solve env solver parsed of
               Inl e \<Rightarrow> raise e
             | Inr r \<Rightarrow> display_solution method r))"

text \<open>The body of the \<open>try\<close>.\<close>

definition solve_body ::
  "('t, 'f) collaborators \<Rightarrow> string \<Rightarrow> string \<Rightarrow> string \<Rightarrow> constraint list \<Rightarrow> bool
     \<Rightarrow> ('t, 'f) io" where
  "solve_body env problem_type method obj_coeffs constraints non_negativity =
     (case parse_problem env problem_type obj_coeffs constraints non_negativity of
        Inl e \<Rightarrow> raise e
      | Inr parsed \<Rightarrow>
          if truthy (parse_error parsed)
          then emit [St_error (case parse_error parsed of None \<Rightarrow> [] | Some s \<Rightarrow> s)]
          else seq (emit [St_subheader ''Problem Formulation''])
              (case format_problem env parsed of
                 Inl e \<Rightarrow> raise e
               | Inr formulation \<Rightarrow>
                   seq (emit [St_markdown formulation, St_subheader (''Solution using '' @ method)])
                       (run_solver env method parsed)))"

text \<open>\<^verbatim>\<open>except Exception as e: st.error(...)\<close>: solve_problem itself returns.\<close>

definition solve_problem ::
  "('t, 'f) collaborators \<Rightarrow> string \<Rightarrow> string \<Rightarrow> string \<Rightarrow> constraint list \<Rightarrow> bool
     \<Rightarrow> ('t, 'f) effect list" where
  "solve_problem env problem_type method obj_coeffs constraints non_negativity =
     (case solve_body env problem_type method obj_coeffs constraints non_negativity of
        (es, None) \<Rightarrow> es
      | (es, Some e) \<Rightarrow>
          es @ [St_error (''An error occurred while solving the problem: '' @ str_exn e)])"

section \<open>The two buttons of show_problem_input\<close>

definition please_enter :: string where
  "please_enter = ''Please enter the objective function and at least one constraint.''"

text \<open>"Validate Problem".\<close>

definition validate_button :: "string \<Rightarrow> constraint list \<Rightarrow> string \<Rightarrow> ('t, 'f) io" where
  "validate_button obj_coeffs constraints problem_type =
     (if obj_coeffs \<noteq> [] \<and> length constraints > 0 then
        (let validation_result = validate_problem_input obj_coeffs constraints
         in if valid validation_result then
              seq (emit [St_success (check_mark @ '' Problem is well-formulated!''),
                         St_markdown ''**Problem Summary:**''])
                (case num_variables validation_result of
                   None \<Rightarrow> raise (KeyError ''num_variables'')
                 | Some n \<Rightarrow>
                     emit [St_markdown (bullet @ '' Variables: '' @ str_nat n),
                           St_markdown (bullet @ '' Constraints: ''
                                        @ str_nat (length constraints)),
                           St_markdown (bullet @ '' Problem type: '' @ problem_type)])
            else (case error validation_result of
                    None \<Rightarrow> raise (KeyError ''error'')
                  | Some reason \<Rightarrow>
                      emit [St_error (cross_mark @ '' Problem validation failed: '' @ reason)]))
      else emit [St_error please_enter])"

text \<open>"Solve Problem".\<close>

definition solve_button ::
  "('t, 'f) collaborators \<Rightarrow> string \<Rightarrow> string \<Rightarrow> string \<Rightarrow> constraint list \<Rightarrow> bool
     \<Rightarrow> ('t, 'f) io" where
  "solve_button env problem_type method obj_coeffs constraints non_negativity =
     (if obj_coeffs \<noteq> [] \<and> length constraints > 0 then
        (let validation_result = validate_problem_input obj_coeffs constraints
         in if valid validation_result then
              emit (solve_problem env problem_type method obj_coeffs constraints non_negativity)
            else (case error validation_result of
                    None \<Rightarrow> raise (KeyError ''error'')
                  | Some reason \<Rightarrow> emit [St_error (''Cannot solve: '' @ reason)]))
      else emit [St_error please_enter])"

section \<open>Notions used to state the properties\<close>

text \<open>\<^verbatim>\<open>math.isfinite\<close>.\<close>

fun is_finite :: "pyfloat \<Rightarrow> bool" where
  "is_finite (Finite q) = True"
| "is_finite PosInf = False"
| "is_finite NegInf = False"
| "is_finite NaN = False"

text \<open>The text an effect puts on the page, when it puts one.\<close>

fun effect_text :: "('t, 'f) effect \<Rightarrow> string" where
  "effect_text (St_error s) = s"
| "effect_text (St_warning s) = s"
| "effect_text (St_success s) = s"
| "effect_text (St_info s) = s"
| "effect_text (St_subheader s) = s"
| "effect_text (St_markdown s) = s"
| "effect_text (St_write s) = s"
| "effect_text (St_expander s b) = s"
| "effect_text e = []"

fun starts_with :: "string \<Rightarrow> string \<Rightarrow> bool" where
  "starts_with [] s = True"
| "starts_with (c # cs) [] = False"
| "starts_with (c # cs) (d # ds) = (c = d \<and> starts_with cs ds)"

fun contains :: "string \<Rightarrow> string \<Rightarrow> bool" where
  "contains t [] = (t = [])"
| "contains t (c # cs) = (starts_with t (c # cs) \<or> contains t cs)"

text \<open>Some text on the page holds \<open>t\<close>.\<close>

definition shown :: "string \<Rightarrow> ('t, 'f) effect list \<Rightarrow> bool" where
  "shown t es = list_ex (\<lambda>e. contains t (effect_text e)) es"

text \<open>The inputs used as examples below.\<close>

definition constraint_of :: "string \<Rightarrow> pyfloat field \<Rightarrow> constraint" where
  "constraint_of text r = \<lparr>coefficients = Val text, ctype = Le, rhs = r\<rparr>"

definition unbounded_result :: "(unit, unit) result" where
  "unbounded_result =
     \<lparr>status = ''unbounded'', message = Some ''x2 can grow without limit'',
      steps = None, variables = None, objective_value = None\<rparr>"

definition infeasible_result :: "(unit, unit) result" where
  "infeasible_result =
     \<lparr>status = ''infeasible'', message = Some ''no point satisfies every constraint'',
      steps = None, variables = None, objective_value = None\<rparr>"

definition one_variable_result :: "(unit, unit) result" where
  "one_variable_result =
     \<lparr>status = ''optimal'', message = None, steps = None,
      variables = Some [(''x1'', Finite 10)], objective_value = Some (Finite 50)\<rparr>"

definition optimal_result :: "(unit, unit) result" where
  "optimal_result =
     \<lparr>status = ''optimal'', message = None, steps = Some [],
      variables = Some [(''x1'', Finite 40), (''x2'', Finite 20)],
      objective_value = Some (Finite 160)\<rparr>"

text \<open>Collaborators for the examples: the parser reads the objective as
  validate_problem_input does, the formatter gives a fixed text, every solver \<open>r\<close>.\<close>

definition example_env :: "(exn + (unit, unit) result) \<Rightarrow> (unit, unit) collaborators" where
  "example_env r =
     \<lparr>parse_problem = (\<lambda>problem_type obj_coeffs constraints non_negativity.
         case parse_coeffs obj_coeffs of
           Inl e \<Rightarrow> Inl e
         | Inr obj_list \<Rightarrow> Inr \<lparr>parse_error = None, objective = obj_list\<rparr>),
      format_problem = (\<lambda>parsed. Inr ''problem''),
      solve = (\<lambda>solver parsed. r)\<rparr>"

section \<open>Facts about validate_problem_input\<close>

lemma map_exn_Inr:
  "map_exn f xs = Inr ys \<Longrightarrow> length ys = length xs \<and> (\<forall>x\<in>set xs. \<exists>y. f x = Inr y)"
  by (induction xs arbitrary: ys) (auto split: sum.splits)

lemma map_exn_Inl:
  "map_exn f xs = Inl e \<Longrightarrow> \<exists>x\<in>set xs. f x = Inl e"
  by (induction xs) (auto split: sum.splits)

lemma parse_coeffs_Inr:
  "parse_coeffs s = Inr xs \<Longrightarrow>
     length xs = length (tokens s) \<and> (\<forall>t\<in>set (tokens s). \<exists>y. float_py (strip t) = Inr y)"
  unfolding parse_coeffs_def by (drule map_exn_Inr) simp

lemma float_py_raises: "float_py s = Inl e \<Longrightarrow> \<exists>m. e = ValueError m"
  by (auto simp: float_py_def Let_def split: prod.splits if_splits)

lemma parse_coeffs_Inl: "parse_coeffs s = Inl e \<Longrightarrow> \<exists>m. e = ValueError m"
  unfolding parse_coeffs_def by (drule map_exn_Inl) (auto dest: float_py_raises)

lemma check_constraints_shape:
  "check_constraints n i cs = Inr r \<Longrightarrow>
     (valid r \<and> num_variables r = Some n \<and> error r = None)
     \<or> (\<not> valid r \<and> (\<exists>m. error r = Some m) \<and> num_variables r = None)"
  by (induction cs arbitrary: i)
     (auto simp: invalid_def split: field.splits if_splits sum.splits)

lemma check_constraints_valid:
  "check_constraints n i cs = Inr r \<Longrightarrow> valid r \<Longrightarrow>
     \<forall>c\<in>set cs. \<exists>s xs v. coefficients c = Val s \<and> strip s \<noteq> [] \<and> parse_coeffs s = Inr xs
        \<and> length xs = n \<and> rhs c = Val v"
  by (induction cs arbitrary: i)
     (auto simp: invalid_def split: field.splits if_splits sum.splits)

lemma invalid_shape [simp]:
  "\<not> valid (invalid m)" "error (invalid m) = Some m" "num_variables (invalid m) = None"
  by (simp_all add: invalid_def)

lemma validate_shape:
  "(valid (validate_problem_input obj cs)
      \<and> (\<exists>n. num_variables (validate_problem_input obj cs) = Some n)
      \<and> error (validate_problem_input obj cs) = None)
   \<or> (\<not> valid (validate_problem_input obj cs)
      \<and> (\<exists>m. error (validate_problem_input obj cs) = Some m)
      \<and> num_variables (validate_problem_input obj cs) = None)"
proof (cases "validate_body obj cs")
  case (Inl e)
  then show ?thesis
    by (cases e) (simp_all add: validate_problem_input_def)
next
  case (Inr r)
  then have "validate_problem_input obj cs = r"
    by (simp add: validate_problem_input_def)
  moreover from Inr have
    "(valid r \<and> (\<exists>n. num_variables r = Some n) \<and> error r = None)
     \<or> (\<not> valid r \<and> (\<exists>m. error r = Some m) \<and> num_variables r = None)"
    by (auto simp: validate_body_def split: sum.splits if_splits
             dest!: check_constraints_shape)
  ultimately show ?thesis by simp
qed

lemma validate_valid:
  assumes "valid (validate_problem_input obj cs)"
  shows "\<exists>ys. parse_coeffs obj = Inr ys \<and> ys \<noteq> []
           \<and> num_variables (validate_problem_input obj cs) = Some (length ys)
           \<and> (\<forall>c\<in>set cs. \<exists>s xs v. coefficients c = Val s \<and> strip s \<noteq> []
                 \<and> parse_coeffs s = Inr xs \<and> length xs = length ys \<and> rhs c = Val v)"
proof (cases "validate_body obj cs")
  case (Inl e)
  with assms show ?thesis
    by (cases e) (simp_all add: validate_problem_input_def)
next
  case (Inr r)
  then have eq: "validate_problem_input obj cs = r"
    by (simp add: validate_problem_input_def)
  with assms have v: "valid r" by simp
  from Inr v obtain ys where p: "parse_coeffs obj = Inr ys" and ne: "ys \<noteq> []"
    and cc: "check_constraints (length ys) 0 cs = Inr r"
    by (auto simp: validate_body_def split: sum.splits if_splits)
  from check_constraints_shape [OF cc] v have "num_variables r = Some (length ys)" by auto
  with p ne check_constraints_valid [OF cc v] eq show ?thesis by auto
qed

lemma validate_not_valid:
  "\<not> valid (validate_problem_input obj cs) \<Longrightarrow>
     \<exists>m. error (validate_problem_input obj cs) = Some m"
  using validate_shape [of obj cs] by auto

lemma parse_coeffs_fails:
  assumes "t \<in> set (tokens s)" and "float_py (strip t) = Inl e"
  shows "\<exists>m. parse_coeffs s = Inl (ValueError m)"
proof (cases "parse_coeffs s")
  case (Inl e')
  then show ?thesis by (auto dest: parse_coeffs_Inl)
next
  case (Inr xs)
  from parse_coeffs_Inr [OF Inr] assms show ?thesis by auto
qed

lemma validate_objective_fails:
  "parse_coeffs obj = Inl (ValueError m) \<Longrightarrow>
     validate_problem_input obj cs = invalid (''Invalid number format: '' @ m)"
  by (simp add: validate_problem_input_def validate_body_def)

lemma parse_coeffs_no_tokens: "tokens s = [] \<Longrightarrow> parse_coeffs s = Inr []"
  by (simp add: parse_coeffs_def)

lemma validate_empty_objective:
  "tokens obj = [] \<Longrightarrow> validate_problem_input obj cs = invalid ''Empty objective function''"
  by (simp add: validate_problem_input_def validate_body_def parse_coeffs_no_tokens)

subsection \<open>The examples, evaluated\<close>

lemma constraint_of_simps [simp]:
  "coefficients (constraint_of text r) = Val text"
  "rhs (constraint_of text r) = r"
  by (simp_all add: constraint_of_def)

lemma parse_3_2: "parse_coeffs ''3, 2'' = Inr [Finite 3, Finite 2]"
  by code_simp

lemma parse_2_1_4: "parse_coeffs ''2, 1, 4'' = Inr [Finite 2, Finite 1, Finite 4]"
  by code_simp

lemma parse_blank: "parse_coeffs ''3,,2'' = Inr [Finite 3, Finite 2]"
  by code_simp

lemma tokens_blank_objective: "tokens '' , '' = []"
  by code_simp

lemma token_of_3_x: "'' x'' \<in> set (tokens ''3, x'')"
  by code_simp

lemma float_of_x:
  "float_py (strip '' x'')
     = Inl (ValueError (''could not convert string to float: '' @ [sq] @ ''x'' @ [sq]))"
  by code_simp

lemma valid_3_2:
  "valid (validate_problem_input ''3, 2'' [constraint_of ''2, 1'' (Val (Finite 100))])"
  by code_simp

lemma valid_blank:
  "valid (validate_problem_input ''3,,2'' [constraint_of ''1,,1'' (Val (Finite 4))])"
  by code_simp

section \<open>The properties\<close>

text \<open>
  Claim C3. Validation fails, with a reason, whenever some constraint's parsed
  coefficient list and the parsed objective coefficient list differ in length; and
  validation succeeds only if every constraint's coefficient list parses and has as
  many entries as the objective's.
\<close>

theorem validate_dimension_mismatch:
  "(c \<in> set cs \<and> coefficients c = Val s \<and> parse_coeffs s = Inr xs
      \<and> parse_coeffs obj = Inr ys \<and> length xs \<noteq> length ys
    \<longrightarrow> \<not> valid (validate_problem_input obj cs)
        \<and> (\<exists>m. error (validate_problem_input obj cs) = Some m))
   \<and> (valid (validate_problem_input obj cs)
    \<longrightarrow> (\<exists>ys. parse_coeffs obj = Inr ys
          \<and> (\<forall>c\<in>set cs. \<exists>s xs. coefficients c = Val s \<and> parse_coeffs s = Inr xs
                \<and> length xs = length ys)))"
proof (intro conjI impI)
  assume h: "c \<in> set cs \<and> coefficients c = Val s \<and> parse_coeffs s = Inr xs
      \<and> parse_coeffs obj = Inr ys \<and> length xs \<noteq> length ys"
  show nv: "\<not> valid (validate_problem_input obj cs)"
  proof
    assume "valid (validate_problem_input obj cs)"
    from validate_valid [OF this] h show False by fastforce
  qed
  from validate_not_valid [OF nv]
  show "\<exists>m. error (validate_problem_input obj cs) = Some m" .
next
  assume "valid (validate_problem_input obj cs)"
  from validate_valid [OF this]
  show "\<exists>ys. parse_coeffs obj = Inr ys
          \<and> (\<forall>c\<in>set cs. \<exists>s xs. coefficients c = Val s \<and> parse_coeffs s = Inr xs
                \<and> length xs = length ys)"
    by fastforce
qed

theorem validate_dimension_mismatch_witness:
  "constraint_of ''2, 1, 4'' (Val (Finite 100)) \<in> set [constraint_of ''2, 1, 4'' (Val (Finite 100))]
   \<and> coefficients (constraint_of ''2, 1, 4'' (Val (Finite 100))) = Val ''2, 1, 4''
   \<and> parse_coeffs ''2, 1, 4'' = Inr [Finite 2, Finite 1, Finite 4]
   \<and> parse_coeffs ''3, 2'' = Inr [Finite 3, Finite 2]
   \<and> length [Finite 2, Finite 1, Finite 4] \<noteq> length [Finite 3, Finite 2]
   \<and> \<not> valid (validate_problem_input ''3, 2'' [constraint_of ''2, 1, 4'' (Val (Finite 100))])
   \<and> (\<exists>m. error (validate_problem_input ''3, 2'' [constraint_of ''2, 1, 4'' (Val (Finite 100))])
             = Some m)
   \<and> valid (validate_problem_input ''3, 2'' [constraint_of ''2, 1'' (Val (Finite 100))])
   \<and> (\<exists>ys s xs. parse_coeffs ''3, 2'' = Inr ys
         \<and> coefficients (constraint_of ''2, 1'' (Val (Finite 100))) = Val s
         \<and> parse_coeffs s = Inr xs \<and> length xs = length ys)"
proof -
  have h: "constraint_of ''2, 1, 4'' (Val (Finite 100))
             \<in> set [constraint_of ''2, 1, 4'' (Val (Finite 100))]
      \<and> coefficients (constraint_of ''2, 1, 4'' (Val (Finite 100))) = Val ''2, 1, 4''
      \<and> parse_coeffs ''2, 1, 4'' = Inr [Finite 2, Finite 1, Finite 4]
      \<and> parse_coeffs ''3, 2'' = Inr [Finite 3, Finite 2]
      \<and> length [Finite 2, Finite 1, Finite 4] \<noteq> length [Finite 3, Finite 2]"
    by (simp add: parse_2_1_4 parse_3_2)
  have a: "\<not> valid (validate_problem_input ''3, 2'' [constraint_of ''2, 1, 4'' (Val (Finite 100))])
      \<and> (\<exists>m. error (validate_problem_input ''3, 2''
                      [constraint_of ''2, 1, 4'' (Val (Finite 100))]) = Some m)"
    using validate_dimension_mismatch
      [where c = "constraint_of ''2, 1, 4'' (Val (Finite 100))"
         and cs = "[constraint_of ''2, 1, 4'' (Val (Finite 100))]"
         and s = "''2, 1, 4''" and xs = "[Finite 2, Finite 1, Finite 4]"
         and obj = "''3, 2''" and ys = "[Finite 3, Finite 2]"] h
    by blast
  have b: "\<exists>ys s xs. parse_coeffs ''3, 2'' = Inr ys
         \<and> coefficients (constraint_of ''2, 1'' (Val (Finite 100))) = Val s
         \<and> parse_coeffs s = Inr xs \<and> length xs = length ys"
    using validate_dimension_mismatch
      [where cs = "[constraint_of ''2, 1'' (Val (Finite 100))]" and obj = "''3, 2''"]
      valid_3_2
    by fastforce
  from h a b valid_3_2 show ?thesis by blast
qed



text \<open>
  Claim C6, as the code has it. An infinite right-hand side passes validation: the
  only test of \<open>'rhs'\<close> is \<^verbatim>\<open>constraint['rhs'] is None\<close>.
\<close>

theorem validate_accepts_infinite_rhs:
  "\<not> is_finite PosInf
   \<and> valid (validate_problem_input ''1'' [constraint_of ''1'' (Val PosInf)])"
  by code_simp

text \<open>
  Claim C6, amended. Validation fails, with a reason, whenever some constraint's
  right-hand side is \<open>None\<close>; and validation succeeds only when every constraint's
  right-hand side is a value (finite or not).
\<close>

theorem validate_missing_rhs:
  "(c \<in> set cs \<and> rhs c = Null
    \<longrightarrow> \<not> valid (validate_problem_input obj cs)
        \<and> (\<exists>m. error (validate_problem_input obj cs) = Some m))
   \<and> (valid (validate_problem_input obj cs) \<longrightarrow> (\<forall>c\<in>set cs. \<exists>r. rhs c = Val r))"
proof (intro conjI impI)
  assume h: "c \<in> set cs \<and> rhs c = Null"
  show nv: "\<not> valid (validate_problem_input obj cs)"
  proof
    assume "valid (validate_problem_input obj cs)"
    from validate_valid [OF this] h show False by fastforce
  qed
  from validate_not_valid [OF nv]
  show "\<exists>m. error (validate_problem_input obj cs) = Some m" .
next
  assume "valid (validate_problem_input obj cs)"
  from validate_valid [OF this] show "\<forall>c\<in>set cs. \<exists>r. rhs c = Val r"
    by fastforce
qed

theorem validate_missing_rhs_witness:
  "constraint_of ''2, 1'' Null \<in> set [constraint_of ''2, 1'' Null]
   \<and> rhs (constraint_of ''2, 1'' Null) = Null
   \<and> \<not> valid (validate_problem_input ''3, 2'' [constraint_of ''2, 1'' Null])
   \<and> (\<exists>m. error (validate_problem_input ''3, 2'' [constraint_of ''2, 1'' Null]) = Some m)
   \<and> valid (validate_problem_input ''3, 2'' [constraint_of ''2, 1'' (Val (Finite 100))])
   \<and> (\<exists>r. rhs (constraint_of ''2, 1'' (Val (Finite 100))) = Val r)"
proof -
  have h: "constraint_of ''2, 1'' Null \<in> set [constraint_of ''2, 1'' Null]
      \<and> rhs (constraint_of ''2, 1'' Null) = Null"
    by simp
  have a: "\<not> valid (validate_problem_input ''3, 2'' [constraint_of ''2, 1'' Null])
      \<and> (\<exists>m. error (validate_problem_input ''3, 2'' [constraint_of ''2, 1'' Null]) = Some m)"
    using validate_missing_rhs
      [where c = "constraint_of ''2, 1'' Null" and cs = "[constraint_of ''2, 1'' Null]"
         and obj = "''3, 2''"] h
    by blast
  have b: "\<forall>c\<in>set [constraint_of ''2, 1'' (Val (Finite 100))]. \<exists>r. rhs c = Val r"
    using validate_missing_rhs
      [where cs = "[constraint_of ''2, 1'' (Val (Finite 100))]" and obj = "''3, 2''"]
      valid_3_2
    by blast
  from b have "\<exists>r. rhs (constraint_of ''2, 1'' (Val (Finite 100))) = Val r"
    by simp
  with h a valid_3_2 show ?thesis by blast
qed

text \<open>
  Claim C9. For every objective text and every list of constraint records, with
  entries absent, \<open>None\<close> or unreadable, \<open>validate_problem_input\<close> returns a dict: either
  \<open>'valid'\<close> is true and \<open>'num_variables'\<close> is there, or \<open>'valid'\<close> is false and
  \<open>'error'\<close> is there. Every exception of the body is caught by one of the two
  handlers, so the function has no exceptional outcome.
\<close>

theorem validate_returns_dict:
  "(valid (validate_problem_input obj cs)
      \<and> (\<exists>n. num_variables (validate_problem_input obj cs) = Some n)
      \<and> error (validate_problem_input obj cs) = None)
   \<or> (\<not> valid (validate_problem_input obj cs)
      \<and> (\<exists>m. error (validate_problem_input obj cs) = Some m)
      \<and> num_variables (validate_problem_input obj cs) = None)"
  by (rule validate_shape)

theorem validate_returns_dict_witness:
  "valid (validate_problem_input ''3, 2'' [constraint_of ''2, 1'' (Val (Finite 100))])
   \<and> (\<exists>n. num_variables
              (validate_problem_input ''3, 2'' [constraint_of ''2, 1'' (Val (Finite 100))])
            = Some n)
   \<and> error (validate_problem_input ''3, 2'' [constraint_of ''2, 1'' (Val (Finite 100))]) = None
   \<and> \<not> valid (validate_problem_input ''3, 2''
                 [\<lparr>coefficients = Missing, ctype = Ge, rhs = Missing\<rparr>])
   \<and> (\<exists>m. error (validate_problem_input ''3, 2''
                    [\<lparr>coefficients = Missing, ctype = Ge, rhs = Missing\<rparr>]) = Some m)
   \<and> num_variables (validate_problem_input ''3, 2''
                      [\<lparr>coefficients = Missing, ctype = Ge, rhs = Missing\<rparr>]) = None"
proof -
  have n: "\<not> valid (validate_problem_input ''3, 2''
                 [\<lparr>coefficients = Missing, ctype = Ge, rhs = Missing\<rparr>])"
    by code_simp
  from valid_3_2
    validate_returns_dict [of "''3, 2''" "[constraint_of ''2, 1'' (Val (Finite 100))]"]
  have a: "(\<exists>n. num_variables
              (validate_problem_input ''3, 2'' [constraint_of ''2, 1'' (Val (Finite 100))])
            = Some n)
      \<and> error (validate_problem_input ''3, 2'' [constraint_of ''2, 1'' (Val (Finite 100))])
          = None"
    by blast
  from n
    validate_returns_dict [of "''3, 2''" "[\<lparr>coefficients = Missing, ctype = Ge, rhs = Missing\<rparr>]"]
  have b: "(\<exists>m. error (validate_problem_input ''3, 2''
                    [\<lparr>coefficients = Missing, ctype = Ge, rhs = Missing\<rparr>]) = Some m)
      \<and> num_variables (validate_problem_input ''3, 2''
                      [\<lparr>coefficients = Missing, ctype = Ge, rhs = Missing\<rparr>]) = None"
    by blast
  from valid_3_2 n a b show ?thesis by blast
qed



section \<open>Facts about display_solution and solve_problem\<close>

lemma seq_emit [simp]: "seq (emit es) b = (es @ fst b, snd b)"
  by (simp add: seq_def emit_def)

lemma seq_raise [simp]: "seq (raise e) b = raise e"
  by (simp add: seq_def raise_def)

lemma seq_pair [simp]:
  "seq (es, None) b = (es @ fst b, snd b)"
  "seq (es, Some e) b = (es, Some e)"
  by (simp_all add: seq_def)

lemma fst_snd_emit [simp]: "fst (emit es) = es" "snd (emit es) = None"
  by (simp_all add: emit_def)

lemma fst_snd_raise [simp]: "fst (raise e) = []" "snd (raise e) = Some e"
  by (simp_all add: raise_def)

lemma step_by_step_update [simp]:
  "step_by_step (r\<lparr>variables := vs, objective_value := z\<rparr>) = step_by_step r"
  "step_by_step (r\<lparr>message := x\<rparr>) = step_by_step r"
  by (simp_all add: step_by_step_def)

text \<open>Every status but \<open>'optimal'\<close>: what display_solution does, in one equation.\<close>

lemma display_not_optimal:
  "status r \<noteq> ''optimal'' \<Longrightarrow>
     display_solution meth r =
       (if status r = ''error'' then
          (case message r of
             None \<Rightarrow> raise (KeyError ''message'')
           | Some m \<Rightarrow> emit [St_error m])
        else (step_by_step r @ St_subheader ''Final Solution''
                # (if status r = ''unbounded'' then unbounded_notice
                   else if status r = ''infeasible'' then infeasible_notice
                   else [St_info (''Status: '' @ status r)]), None))"
  by (simp add: display_solution_def final_solution_def learning_insights_def)

lemma display_optimal_returns:
  "status r = ''optimal'' \<Longrightarrow> variables r = Some vs \<Longrightarrow> objective_value r = Some z \<Longrightarrow>
     snd (display_solution meth r) = None"
  by (simp add: display_solution_def final_solution_def show_optimal_def
                learning_insights_def)

lemma example_results [simp]:
  "status unbounded_result = ''unbounded''"
  "message unbounded_result = Some ''x2 can grow without limit''"
  "status infeasible_result = ''infeasible''"
  "status optimal_result = ''optimal''"
  "variables optimal_result = Some [(''x1'', Finite 40), (''x2'', Finite 20)]"
  "objective_value optimal_result = Some (Finite 160)"
  "status one_variable_result = ''optimal''"
  "variables one_variable_result = Some [(''x1'', Finite 10)]"
  "objective_value one_variable_result = Some (Finite 50)"
  by (simp_all add: unbounded_result_def infeasible_result_def optimal_result_def
                    one_variable_result_def)

lemma example_env_simps [simp]:
  "parse_problem (example_env x) problem_type obj_coeffs constraints non_negativity
     = (case parse_coeffs obj_coeffs of
          Inl e \<Rightarrow> Inl e
        | Inr obj_list \<Rightarrow> Inr \<lparr>parse_error = None, objective = obj_list\<rparr>)"
  "format_problem (example_env x) parsed = Inr ''problem''"
  "solve (example_env x) solver parsed = x"
  by (simp_all add: example_env_def)

lemma parse_5: "parse_coeffs ''5'' = Inr [Finite 5]"
  by code_simp

lemma parse_x:
  "parse_coeffs ''x''
     = Inl (ValueError (''could not convert string to float: '' @ [sq] @ ''x'' @ [sq]))"
  by code_simp

text \<open>
  Claim C1, as the code has it. The objective \<open>'5'\<close> with the constraint \<open>'1' \<le> 10\<close>
  passes validation with one variable; with the Graphical method selected the guard
  \<^verbatim>\<open>len(parsed_problem['objective']) > 2\<close> lets it through and GraphicalSolver.solve
  is called, although the message of that guard says the method "only supports
  problems with 2 variables".
\<close>

theorem graphical_solver_runs_on_one_variable:
  "validate_problem_input ''5'' [constraint_of ''1'' (Val (Finite 10))]
     = \<lparr>valid = True, error = None, num_variables = Some 1\<rparr>
   \<and> parse_problem (example_env (Inr one_variable_result)) ''Maximize'' ''5''
       [constraint_of ''1'' (Val (Finite 10))] True
     = Inr \<lparr>parse_error = None, objective = [Finite 5]\<rparr>
   \<and> solve_problem (example_env (Inr one_variable_result)) ''Maximize'' ''Graphical Method''
       ''5'' [constraint_of ''1'' (Val (Finite 10))] True
     = [St_subheader ''Problem Formulation'', St_markdown ''problem'',
        St_subheader ''Solution using Graphical Method'', Solver_solve GraphicalSolver]
       @ fst (display_solution ''Graphical Method'' one_variable_result)"
proof (intro conjI)
  show "validate_problem_input ''5'' [constraint_of ''1'' (Val (Finite 10))]
     = \<lparr>valid = True, error = None, num_variables = Some 1\<rparr>"
    by code_simp
  show "parse_problem (example_env (Inr one_variable_result)) ''Maximize'' ''5''
       [constraint_of ''1'' (Val (Finite 10))] True
     = Inr \<lparr>parse_error = None, objective = [Finite 5]\<rparr>"
    by (simp add: parse_5)
  have "snd (display_solution ''Graphical Method'' one_variable_result) = None"
    by (rule display_optimal_returns) simp_all
  then show "solve_problem (example_env (Inr one_variable_result)) ''Maximize''
       ''Graphical Method'' ''5'' [constraint_of ''1'' (Val (Finite 10))] True
     = [St_subheader ''Problem Formulation'', St_markdown ''problem'',
        St_subheader ''Solution using Graphical Method'', Solver_solve GraphicalSolver]
       @ fst (display_solution ''Graphical Method'' one_variable_result)"
    by (simp add: solve_problem_def solve_body_def run_solver_def choose_solver_def
                  truthy_def parse_5 split: prod.splits)
qed



lemma fmt4_examples:
  "fmt4 (Finite 40) = ''40.0000''"
  "fmt4 (Finite 20) = ''20.0000''"
  "fmt4 (Finite 160) = ''160.0000''"
  by (simp_all add: round_half_even_def Let_def str_nat.simps digit_char_def pad4_def)

text \<open>
  Claim C5. An input with an empty constraint list is not judged well-formed: for such
  an input both buttons of show_problem_input show "Please enter the objective function
  and at least one constraint." and do nothing else, whatever the objective text. The
  test is the buttons' own (\<^verbatim>\<open>len(constraints) > 0\<close>); validate_problem_input is not
  called for such an input.
\<close>

theorem empty_constraint_list_rejected:
  "validate_button obj_coeffs [] problem_type = ([St_error please_enter], None)
   \<and> solve_button env problem_type meth obj_coeffs [] non_negativity
       = ([St_error please_enter], None)"
  by (simp add: validate_button_def solve_button_def emit_def)

theorem empty_constraint_list_rejected_witness:
  "validate_button ''3, 2'' [] ''Maximize''
     = ([St_error please_enter :: (unit, unit) effect], None)
   \<and> solve_button (example_env (Inr optimal_result)) ''Maximize'' ''Simplex Method''
       ''3, 2'' [] True
     = ([St_error please_enter], None)"
  using empty_constraint_list_rejected
    [where obj_coeffs = "''3, 2''" and problem_type = "''Maximize''"
       and env = "example_env (Inr optimal_result)" and meth = "''Simplex Method''"
       and non_negativity = True]
  by blast

text \<open>
  Claim C7. display_solution reads and shows \<open>'variables'\<close> and \<open>'objective_value'\<close> if
  and only if the status is \<open>'optimal'\<close>. For any other status what it does is the same
  whatever the two entries hold, or whether they are there. For \<open>'optimal'\<close> every
  variable is written as "name = value" and the objective as "Z = value", to four
  decimals, and an absent entry raises KeyError.
\<close>

theorem display_reads_solution_iff_optimal:
  "(status r \<noteq> ''optimal''
    \<longrightarrow> display_solution meth (r\<lparr>variables := vs', objective_value := z'\<rparr>)
          = display_solution meth r)
   \<and> (status r = ''optimal'' \<and> variables r = Some vs \<and> objective_value r = Some z
    \<longrightarrow> snd (display_solution meth r) = None
        \<and> (\<forall>p\<in>set vs. St_write (fst p @ '' = '' @ fmt4 (snd p))
                          \<in> set (fst (display_solution meth r)))
        \<and> St_write (''Z = '' @ fmt4 z) \<in> set (fst (display_solution meth r)))
   \<and> (status r = ''optimal'' \<and> variables r = None
    \<longrightarrow> snd (display_solution meth r) = Some (KeyError ''variables''))
   \<and> (status r = ''optimal'' \<and> variables r = Some vs \<and> objective_value r = None
    \<longrightarrow> snd (display_solution meth r) = Some (KeyError ''objective_value''))"
proof (intro conjI impI)
  assume "status r \<noteq> ''optimal''"
  then show "display_solution meth (r\<lparr>variables := vs', objective_value := z'\<rparr>)
          = display_solution meth r"
    by (simp add: display_not_optimal)
next
  assume h: "status r = ''optimal'' \<and> variables r = Some vs \<and> objective_value r = Some z"
  then show "snd (display_solution meth r) = None"
    by (simp add: display_optimal_returns)
  from h show "\<forall>p\<in>set vs. St_write (fst p @ '' = '' @ fmt4 (snd p))
                          \<in> set (fst (display_solution meth r))"
    by (auto simp: display_solution_def final_solution_def show_optimal_def
                   learning_insights_def write_variable_def)
  from h show "St_write (''Z = '' @ fmt4 z) \<in> set (fst (display_solution meth r))"
    by (simp add: display_solution_def final_solution_def show_optimal_def
                  learning_insights_def)
next
  assume "status r = ''optimal'' \<and> variables r = None"
  then show "snd (display_solution meth r) = Some (KeyError ''variables'')"
    by (simp add: display_solution_def final_solution_def show_optimal_def
                  learning_insights_def)
next
  assume "status r = ''optimal'' \<and> variables r = Some vs \<and> objective_value r = None"
  then show "snd (display_solution meth r) = Some (KeyError ''objective_value'')"
    by (simp add: display_solution_def final_solution_def show_optimal_def
                  learning_insights_def)
qed

theorem display_reads_solution_iff_optimal_witness:
  "status unbounded_result \<noteq> ''optimal''
   \<and> display_solution ''Simplex Method''
       (unbounded_result\<lparr>variables := Some [(''x1'', Finite 40)],
                         objective_value := Some (Finite 160)\<rparr>)
     = display_solution ''Simplex Method'' unbounded_result
   \<and> status optimal_result = ''optimal''
   \<and> variables optimal_result = Some [(''x1'', Finite 40), (''x2'', Finite 20)]
   \<and> objective_value optimal_result = Some (Finite 160)
   \<and> snd (display_solution ''Simplex Method'' optimal_result) = None
   \<and> St_write ''x1 = 40.0000'' \<in> set (fst (display_solution ''Simplex Method'' optimal_result))
   \<and> St_write ''x2 = 20.0000'' \<in> set (fst (display_solution ''Simplex Method'' optimal_result))
   \<and> St_write ''Z = 160.0000'' \<in> set (fst (display_solution ''Simplex Method'' optimal_result))
   \<and> snd (display_solution ''Simplex Method'' (optimal_result\<lparr>variables := None\<rparr>))
       = Some (KeyError ''variables'')
   \<and> snd (display_solution ''Simplex Method'' (optimal_result\<lparr>objective_value := None\<rparr>))
       = Some (KeyError ''objective_value'')"
proof -
  have u: "status unbounded_result \<noteq> ''optimal''"
    by simp
  have a: "display_solution ''Simplex Method''
       (unbounded_result\<lparr>variables := Some [(''x1'', Finite 40)],
                         objective_value := Some (Finite 160)\<rparr>)
     = display_solution ''Simplex Method'' unbounded_result"
    using display_reads_solution_iff_optimal
      [where r = unbounded_result and meth = "''Simplex Method''"
         and vs' = "Some [(''x1'', Finite 40)]" and z' = "Some (Finite 160)"] u
    by blast
  have o: "status optimal_result = ''optimal''
      \<and> variables optimal_result = Some [(''x1'', Finite 40), (''x2'', Finite 20)]
      \<and> objective_value optimal_result = Some (Finite 160)"
    by simp
  have b: "snd (display_solution ''Simplex Method'' optimal_result) = None
      \<and> (\<forall>p\<in>set [(''x1'', Finite 40), (''x2'', Finite 20)].
            St_write (fst p @ '' = '' @ fmt4 (snd p))
              \<in> set (fst (display_solution ''Simplex Method'' optimal_result)))
      \<and> St_write (''Z = '' @ fmt4 (Finite 160))
          \<in> set (fst (display_solution ''Simplex Method'' optimal_result))"
    using display_reads_solution_iff_optimal
      [where r = optimal_result and meth = "''Simplex Method''"
         and vs = "[(''x1'', Finite 40), (''x2'', Finite 20)]" and z = "Finite 160"] o
    by blast
  then have b': "St_write ''x1 = 40.0000''
                   \<in> set (fst (display_solution ''Simplex Method'' optimal_result))
      \<and> St_write ''x2 = 20.0000''
          \<in> set (fst (display_solution ''Simplex Method'' optimal_result))
      \<and> St_write ''Z = 160.0000''
          \<in> set (fst (display_solution ''Simplex Method'' optimal_result))"
    by (simp add: fmt4_examples del: fmt4.simps)
  have c: "snd (display_solution ''Simplex Method'' (optimal_result\<lparr>variables := None\<rparr>))
       = Some (KeyError ''variables'')"
    using display_reads_solution_iff_optimal
      [where r = "optimal_result\<lparr>variables := None\<rparr>" and meth = "''Simplex Method''"]
    by simp
  have d: "snd (display_solution ''Simplex Method''
                  (optimal_result\<lparr>objective_value := None\<rparr>))
       = Some (KeyError ''objective_value'')"
    using display_reads_solution_iff_optimal
      [where r = "optimal_result\<lparr>objective_value := None\<rparr>"
         and meth = "''Simplex Method''"
         and vs = "[(''x1'', Finite 40), (''x2'', Finite 20)]"]
    by simp
  from u a o b b' c d show ?thesis by blast
qed

text \<open>
  Claim C8, as the code has it. A Result of status \<open>'unbounded'\<close> carries a message,
  and no text that display_solution puts on the page holds it.
\<close>

theorem unbounded_message_not_shown:
  "status unbounded_result = ''unbounded''
   \<and> message unbounded_result = Some ''x2 can grow without limit''
   \<and> \<not> shown ''x2 can grow without limit''
         (fst (display_solution ''Simplex Method'' unbounded_result))"
  by code_simp

text \<open>
  Claim C8, amended. For a Result whose status is \<open>'error'\<close>, display_solution shows
  the Result's message, and nothing else. For a Result whose status is \<open>'unbounded'\<close> or
  \<open>'infeasible'\<close> it shows the steps and a fixed text for that status; what it does is
  the same whatever the message entry holds.
\<close>

theorem display_message_only_for_error:
  "(status r = ''error'' \<and> message r = Some m
    \<longrightarrow> display_solution meth r = ([St_error m], None))
   \<and> (status r = ''unbounded'' \<or> status r = ''infeasible''
    \<longrightarrow> display_solution meth (r\<lparr>message := x\<rparr>) = display_solution meth r)
   \<and> (status r = ''unbounded''
    \<longrightarrow> display_solution meth r
          = (step_by_step r @ St_subheader ''Final Solution'' # unbounded_notice, None))
   \<and> (status r = ''infeasible''
    \<longrightarrow> display_solution meth r
          = (step_by_step r @ St_subheader ''Final Solution'' # infeasible_notice, None))"
proof (intro conjI impI)
  assume "status r = ''error'' \<and> message r = Some m"
  then show "display_solution meth r = ([St_error m], None)"
    by (simp add: display_solution_def emit_def)
next
  assume "status r = ''unbounded'' \<or> status r = ''infeasible''"
  then show "display_solution meth (r\<lparr>message := x\<rparr>) = display_solution meth r"
    by (auto simp: display_not_optimal)
next
  assume "status r = ''unbounded''"
  then show "display_solution meth r
          = (step_by_step r @ St_subheader ''Final Solution'' # unbounded_notice, None)"
    by (simp add: display_not_optimal)
next
  assume "status r = ''infeasible''"
  then show "display_solution meth r
          = (step_by_step r @ St_subheader ''Final Solution'' # infeasible_notice, None)"
    by (simp add: display_not_optimal)
qed

theorem display_message_only_for_error_witness:
  "status (unbounded_result\<lparr>status := ''error''\<rparr>) = ''error''
   \<and> message (unbounded_result\<lparr>status := ''error''\<rparr>) = Some ''x2 can grow without limit''
   \<and> display_solution ''Simplex Method'' (unbounded_result\<lparr>status := ''error''\<rparr>)
       = ([St_error ''x2 can grow without limit''], None)
   \<and> status unbounded_result = ''unbounded''
   \<and> display_solution ''Simplex Method'' (unbounded_result\<lparr>message := None\<rparr>)
       = display_solution ''Simplex Method'' unbounded_result
   \<and> display_solution ''Simplex Method'' unbounded_result
       = (step_by_step unbounded_result @ St_subheader ''Final Solution'' # unbounded_notice,
          None)
   \<and> status infeasible_result = ''infeasible''
   \<and> display_solution ''Simplex Method'' infeasible_result
       = (step_by_step infeasible_result @ St_subheader ''Final Solution'' # infeasible_notice,
          None)"
proof -
  have e: "status (unbounded_result\<lparr>status := ''error''\<rparr>) = ''error''
      \<and> message (unbounded_result\<lparr>status := ''error''\<rparr>) = Some ''x2 can grow without limit''"
    by simp
  have a: "display_solution ''Simplex Method'' (unbounded_result\<lparr>status := ''error''\<rparr>)
       = ([St_error ''x2 can grow without limit''], None)"
    using display_message_only_for_error
      [where r = "unbounded_result\<lparr>status := ''error''\<rparr>"
         and m = "''x2 can grow without limit''" and meth = "''Simplex Method''"] e
    by blast
  have b: "display_solution ''Simplex Method'' (unbounded_result\<lparr>message := None\<rparr>)
       = display_solution ''Simplex Method'' unbounded_result
      \<and> display_solution ''Simplex Method'' unbounded_result
       = (step_by_step unbounded_result @ St_subheader ''Final Solution'' # unbounded_notice,
          None)"
    using display_message_only_for_error
      [where r = unbounded_result and meth = "''Simplex Method''" and x = None]
      example_results(1)
    by blast
  have c: "display_solution ''Simplex Method'' infeasible_result
       = (step_by_step infeasible_result @ St_subheader ''Final Solution'' # infeasible_notice,
          None)"
    using display_message_only_for_error
      [where r = infeasible_result and meth = "''Simplex Method''"]
      example_results(3)
    by blast
  from e a b c example_results(1) example_results(3) show ?thesis by blast
qed

end
